theory Spec2Isabelle
  imports Complex_Main
begin

section \<open>The flight animation of main.js\<close>

text \<open>
  The program keeps one vector source of features. A loader turns every flight into a
  group of features, \<open>addLater\<close> stamps each feature of a group with its \<open>start\<close> time
  and stores it, and \<open>animateFlights\<close> runs once per rendered frame: it walks over the
  stored features, draws the visible prefix of every unfinished one twice and adds two
  marker features to the source.

  Numbers. A JavaScript number is modelled as an exact rational, and the constant
  \<open>0.02\<close> as \<open>2 / 100\<close>; the result of a subtraction with \<open>undefined\<close> (NaN) is
  \<open>None\<close>. Times are millisecond counts. The rounding of double arithmetic is not
  modelled.

  Library objects. A geometry is what its constructor was given, and
  \<open>getCoordinates\<close> hands it back. A line built in a frame carries the translation
  it has received instead of translated coordinates. Three library calls of the loop
  body throw on a feature that is not a line of coordinate pairs; they are named where
  the loop is defined. Styles are left out: no attribute that the loop reads depends on
  them, and so is the request for the next frame.

  The source. The source is a list: the features in the order in which
  \<open>getFeatures\<close> hands them to the loop of a frame, which is the library's business.
  A position stands for the identity of a feature: a frame leaves the stored features
  at their positions and new features get new positions.
\<close>

subsection \<open>Values and geometries\<close>

datatype jsval = Undefined | Num rat | Arr "jsval list"

text \<open>\<open>xs[i]\<close>: reading outside the array gives \<open>undefined\<close>.\<close>

definition index :: "jsval list \<Rightarrow> int \<Rightarrow> jsval" where
  "index xs i = (if 0 \<le> i \<and> i < int (length xs) then xs ! nat i else Undefined)"

text \<open>\<open>ToIntegerOrInfinity\<close> on a finite number: truncation towards zero.\<close>

definition toInteger :: "rat \<Rightarrow> int" where
  "toInteger x = (if 0 \<le> x then \<lfloor>x\<rfloor> else \<lceil>x\<rceil>)"

text \<open>\<open>xs.slice(0, e)\<close>: a negative end counts from the back, and the end is clamped
  to the length.\<close>

definition slice0 :: "'a list \<Rightarrow> rat \<Rightarrow> 'a list" where
  "slice0 xs e =
     (let len = int (length xs);
          relEnd = toInteger e;
          final = (if relEnd < 0 then max (len + relEnd) 0 else min relEnd len)
      in take (nat final) xs)"

datatype geometry = LineString "jsval list" | Point jsval

text \<open>
  \<open>getCoordinates\<close> of a line string is its array of coordinates; of a point it is the
  coordinate itself, an array of numbers. A point built from something that is not an
  array has no ordinates.
\<close>

fun getCoordinates :: "geometry \<Rightarrow> jsval list" where
  "getCoordinates (LineString cs) = cs"
| "getCoordinates (Point (Arr c)) = c"
| "getCoordinates (Point _) = []"

definition getFirstCoordinate :: "jsval list \<Rightarrow> jsval" where
  "getFirstCoordinate cs = (case cs of [] \<Rightarrow> Arr [] | c # _ \<Rightarrow> c)"

definition getLastCoordinate :: "jsval list \<Rightarrow> jsval" where
  "getLastCoordinate cs = (if cs = [] then Arr [] else last cs)"

text \<open>The line built in a frame, with the translation it has received so far.\<close>

record line =
  coordinates :: "jsval list"
  dx :: rat
  dy :: rat

definition new_LineString :: "jsval list \<Rightarrow> line" where
  "new_LineString cs = \<lparr>coordinates = cs, dx = 0, dy = 0\<rparr>"

definition translate :: "line \<Rightarrow> rat \<Rightarrow> rat \<Rightarrow> line" where
  "translate l a b = l\<lparr>dx := dx l + a, dy := dy l + b\<rparr>"

subsection \<open>Features\<close>

record feature =
  geometry :: geometry
  name :: "string option"
  finished :: bool
  start :: "rat option"

definition startIcon :: "jsval list \<Rightarrow> feature" where
  "startIcon cs =
     \<lparr>geometry = Point (getFirstCoordinate cs), name = Some ''start'',
      finished = False, start = None\<rparr>"

definition endIcon :: "jsval list \<Rightarrow> feature" where
  "endIcon cs =
     \<lparr>geometry = Point (getLastCoordinate cs), name = Some ''end'',
      finished = False, start = None\<rparr>"

definition lineFeature :: "jsval list \<Rightarrow> feature" where
  "lineFeature cs =
     \<lparr>geometry = LineString cs, name = None, finished = False, start = None\<rparr>"

text \<open>The markers of the frame loop: a point and \<open>finished: false\<close>, nothing else.\<close>

definition iconFeature :: "jsval \<Rightarrow> feature" where
  "iconFeature c = \<lparr>geometry = Point c, name = None, finished = False, start = None\<rparr>"

subsection \<open>The loader and addLater\<close>

definition pointsPerMs :: rat where
  "pointsPerMs = 2 / 100"

text \<open>A coordinate as the arc generator gives it, after projection: a pair.\<close>

definition xy :: "rat \<times> rat \<Rightarrow> jsval" where
  "xy p = Arr [Num (fst p), Num (snd p)]"

text \<open>
  The features of one flight: for every geometry of the arc, a start icon, an end icon
  and the line, in this order.
\<close>

definition flightFeatures :: "(rat \<times> rat) list list \<Rightarrow> feature list" where
  "flightFeatures geometries =
     concat (map (\<lambda>coords. let l = map xy coords in [startIcon l, endIcon l, lineFeature l])
       geometries)"

text \<open>The loader schedules group \<open>i\<close> with a delay of \<open>i * 50\<close> ms.\<close>

definition loader :: "(rat \<times> rat) list list list \<Rightarrow> (feature list \<times> rat) list" where
  "loader arcs = map (\<lambda>(i, g). (flightFeatures g, of_nat i * 50)) (enumerate 0 arcs)"

definition duration :: "feature \<Rightarrow> rat" where
  "duration f = (of_nat (length (getCoordinates (geometry f))) - 1) / pointsPerMs"

text \<open>The \<open>forEach\<close> of \<open>addLater\<close>, with the running \<open>start\<close>.\<close>

fun stamp :: "rat \<Rightarrow> feature list \<Rightarrow> feature list" where
  "stamp s [] = []"
| "stamp s (f # fs) = f\<lparr>start := Some s\<rparr> # stamp (s + duration f) fs"

text \<open>\<open>addLater\<close> when its timer fires and \<open>Date.now()\<close> is \<open>now\<close>.\<close>

definition addLater :: "feature list \<Rightarrow> rat \<Rightarrow> feature list \<Rightarrow> feature list" where
  "addLater features now source = source @ stamp now features"

subsection \<open>The frame loop\<close>

record frame =
  time :: rat
  centerX :: rat
  worldWidth :: rat

text \<open>\<open>frameState.time - feature.get("start")\<close>: NaN when there is no start.\<close>

definition elapsed :: "frame \<Rightarrow> feature \<Rightarrow> rat option" where
  "elapsed fr f = (case start f of None \<Rightarrow> None | Some s \<Rightarrow> Some (time fr - s))"

text \<open>
  What one pass of the loop body computes: the feature as the pass leaves it, the
  features it adds to the source and the lines it hands to \<open>drawGeometry\<close>. This is
  the pass when every library call returns, as it does for a line of coordinate pairs;
  \<open>animatePass\<close> below is the pass with the calls that throw.
\<close>

definition animateFeature :: "frame \<Rightarrow> feature \<Rightarrow> feature \<times> feature list \<times> line list" where
  "animateFeature fr f =
     (if \<not> finished f then
        (let coords = getCoordinates (geometry f) in
         case elapsed fr f of
           None \<Rightarrow> (f, [], [])
         | Some elapsedTime \<Rightarrow>
             if 0 \<le> elapsedTime then
               (let elapsedPoints = elapsedTime * pointsPerMs;
                    f' = (if of_nat (length coords) \<le> elapsedPoints
                          then f\<lparr>finished := True\<rparr> else f);
                    maxIndex = min elapsedPoints (of_nat (length coords));
                    currentLine = new_LineString (slice0 coords maxIndex);
                    offset = \<lfloor>centerX fr / worldWidth fr\<rfloor>;
                    startIconFeature = iconFeature (index coords 0);
                    endIconFeature = iconFeature (index coords (int (length coords) - 1));
                    first = translate currentLine (of_int offset * worldWidth fr) 0;
                    second = translate first (worldWidth fr) 0
                in (f', [startIconFeature, endIconFeature], [first, second]))
             else (f, [], []))
      else (f, [], []))"

text \<open>
  Library calls that throw. \<open>new Point(c)\<close> and \<open>new LineString(cs)\<close> read the
  length of the coordinate, \<open>c.length\<close> and \<open>cs[0].length\<close>: a TypeError on
  \<open>undefined\<close>. A number has no length, so a line string whose first entry is a number
  gets no stride, and \<open>drawGeometry\<close> on it throws a RangeError.
\<close>

datatype error = TypeError | RangeError

definition Point_throws :: "jsval \<Rightarrow> bool" where
  "Point_throws c = (c = Undefined)"

definition LineString_throws :: "jsval list \<Rightarrow> bool" where
  "LineString_throws cs = (case cs of [] \<Rightarrow> False | c # _ \<Rightarrow> c = Undefined)"

definition drawGeometry_throws :: "line \<Rightarrow> bool" where
  "drawGeometry_throws l =
     (case coordinates l of [] \<Rightarrow> False | c # _ \<Rightarrow> (case c of Arr _ \<Rightarrow> False | _ \<Rightarrow> True))"

text \<open>
  One pass of the loop body as it runs: what the pass has done to the feature, added to
  the source and handed to \<open>drawGeometry\<close> when it ends, and the exception that ends
  it, if any. The flag is set (line 156) before the first library call; the markers are
  in the source (line 195) before the first draw call. A draw call that throws is
  listed.
\<close>

definition animatePass ::
  "frame \<Rightarrow> feature \<Rightarrow> (feature \<times> feature list \<times> line list) \<times> error option" where
  "animatePass fr f =
     (if \<not> finished f then
        (let coords = getCoordinates (geometry f) in
         case elapsed fr f of
           None \<Rightarrow> ((f, [], []), None)
         | Some elapsedTime \<Rightarrow>
             if 0 \<le> elapsedTime then
               (let elapsedPoints = elapsedTime * pointsPerMs;
                    f' = (if of_nat (length coords) \<le> elapsedPoints
                          then f\<lparr>finished := True\<rparr> else f);
                    maxIndex = min elapsedPoints (of_nat (length coords));
                    visible = slice0 coords maxIndex;
                    currentLine = new_LineString visible;
                    offset = \<lfloor>centerX fr / worldWidth fr\<rfloor>;
                    startCoord = index coords 0;
                    endCoord = index coords (int (length coords) - 1);
                    added = [iconFeature startCoord, iconFeature endCoord];
                    first = translate currentLine (of_int offset * worldWidth fr) 0;
                    second = translate first (worldWidth fr) 0
                in if LineString_throws visible then ((f', [], []), Some TypeError)
                   else if Point_throws startCoord \<or> Point_throws endCoord
                     then ((f', [], []), Some TypeError)
                   else if drawGeometry_throws first then ((f', added, [first]), Some RangeError)
                   else if drawGeometry_throws second
                     then ((f', added, [first, second]), Some RangeError)
                   else ((f', added, [first, second]), None))
             else ((f, [], []), None))
      else ((f, [], []), None))"

text \<open>
  The loop over the copy of the feature list. An exception ends it: the features after
  the one whose pass throws get no pass in this frame.
\<close>

fun animateLoop ::
  "frame \<Rightarrow> feature list \<Rightarrow> feature list \<times> feature list \<times> line list \<times> error option" where
  "animateLoop fr [] = ([], [], [], None)"
| "animateLoop fr (f # fs) =
     (case animatePass fr f of
        ((f', added, drawn), Some e) \<Rightarrow> (f' # fs, added, drawn, Some e)
      | ((f', added, drawn), None) \<Rightarrow>
          (case animateLoop fr fs of (fs', added', drawn', r) \<Rightarrow>
             (f' # fs', added @ added', drawn @ drawn', r)))"

text \<open>
  One frame: the source afterwards, the draw calls of the frame and the exception that
  ended it, if any.
\<close>

definition animateFlights ::
  "frame \<Rightarrow> feature list \<Rightarrow> feature list \<times> line list \<times> error option" where
  "animateFlights fr source =
     (case animateLoop fr source of (fs', added, drawn, r) \<Rightarrow> (fs' @ added, drawn, r))"

text \<open>Whether the loop body draws a feature in a frame: both guards pass.\<close>

definition animating :: "frame \<Rightarrow> feature \<Rightarrow> bool" where
  "animating fr f =
     (\<not> finished f \<and> (case elapsed fr f of None \<Rightarrow> False | Some e \<Rightarrow> 0 \<le> e))"

text \<open>A path as the loader stores it: a line string of at least one coordinate pair.\<close>

fun isXY :: "jsval \<Rightarrow> bool" where
  "isXY (Arr [Num x, Num y]) = True"
| "isXY _ = False"

definition isPath :: "feature \<Rightarrow> bool" where
  "isPath f =
     (case geometry f of LineString cs \<Rightarrow> cs \<noteq> [] \<and> list_all isXY cs | Point _ \<Rightarrow> False)"

text \<open>The features that get a pass in a frame, and whether a pass adds its markers.\<close>

fun visited :: "frame \<Rightarrow> feature list \<Rightarrow> feature list" where
  "visited fr [] = []"
| "visited fr (f # fs) = f # (if snd (animatePass fr f) = None then visited fr fs else [])"

definition marked :: "frame \<Rightarrow> feature \<Rightarrow> bool" where
  "marked fr f = (fst (snd (fst (animatePass fr f))) \<noteq> [])"

subsection \<open>Runs\<close>

text \<open>
  What happens to the source: a frame is rendered, or a timer of \<open>addLater\<close> fires
  with its group of features at some \<open>Date.now()\<close>.
\<close>

datatype event = Tick frame | Fire "feature list" rat

fun step :: "event \<Rightarrow> feature list \<Rightarrow> feature list" where
  "step (Tick fr) source = fst (animateFlights fr source)"
| "step (Fire features now) source = addLater features now source"

fun run :: "event list \<Rightarrow> feature list \<Rightarrow> feature list" where
  "run [] source = source"
| "run (e # es) source = run es (step e source)"

section \<open>Facts about the loop body and the loop\<close>

lemma toInteger_nonneg: "0 \<le> x \<Longrightarrow> toInteger x = \<lfloor>x\<rfloor>"
  by (simp add: toInteger_def)

lemma slice0_min:
  assumes "0 \<le> e"
  shows "slice0 xs (min e (of_nat (length xs))) = take (min (nat \<lfloor>e\<rfloor>) (length xs)) xs"
proof -
  have m: "0 \<le> min e (of_nat (length xs))" using assms by simp
  have fl: "\<lfloor>min e (of_nat (length xs))\<rfloor> = min \<lfloor>e\<rfloor> (int (length xs))"
  proof (cases "e \<le> of_nat (length xs)")
    case True
    then have "\<lfloor>e\<rfloor> \<le> \<lfloor>rat_of_nat (length xs)\<rfloor>" by (rule floor_mono)
    with True show ?thesis by (simp add: min_def)
  next
    case False
    then have "rat_of_int (int (length xs)) \<le> e" by simp
    then have "int (length xs) \<le> \<lfloor>e\<rfloor>" by (simp only: le_floor_iff)
    with False show ?thesis by (simp add: min_def)
  qed
  have "0 \<le> \<lfloor>e\<rfloor>" using assms by simp
  then have n: "nat (min \<lfloor>e\<rfloor> (int (length xs))) = min (nat \<lfloor>e\<rfloor>) (length xs)"
    by (simp add: min_def) linarith
  have nn: "\<not> min \<lfloor>e\<rfloor> (int (length xs)) < 0" using assms by (simp add: min_def)
  have "slice0 xs (min e (of_nat (length xs))) = take (nat (min \<lfloor>e\<rfloor> (int (length xs)))) xs"
    unfolding slice0_def Let_def toInteger_nonneg [OF m] fl using nn by simp
  then show ?thesis by (simp only: n)
qed

lemma animateFeature_finished: "finished f \<Longrightarrow> animateFeature fr f = (f, [], [])"
  by (simp add: animateFeature_def)

lemma animateFeature_nostart: "start f = None \<Longrightarrow> animateFeature fr f = (f, [], [])"
  by (simp add: animateFeature_def elapsed_def)

lemma animateFeature_early:
  "start f = Some s \<Longrightarrow> time fr < s \<Longrightarrow> animateFeature fr f = (f, [], [])"
  by (simp add: animateFeature_def elapsed_def)

lemma animateFeature_running:
  assumes "\<not> finished f" "start f = Some s" "s \<le> time fr"
  shows "animateFeature fr f =
    (let cs = getCoordinates (geometry f);
         e = (time fr - s) * pointsPerMs;
         p = new_LineString (take (min (nat \<lfloor>e\<rfloor>) (length cs)) cs);
         k = \<lfloor>centerX fr / worldWidth fr\<rfloor>
     in (if of_nat (length cs) \<le> e then f\<lparr>finished := True\<rparr> else f,
         [iconFeature (index cs 0), iconFeature (index cs (int (length cs) - 1))],
         [translate p (of_int k * worldWidth fr) 0,
          translate (translate p (of_int k * worldWidth fr) 0) (worldWidth fr) 0]))"
proof -
  have e: "0 \<le> (time fr - s) * pointsPerMs" using assms(3) by (simp add: pointsPerMs_def)
  show ?thesis
    using assms by (simp add: animateFeature_def elapsed_def Let_def slice0_min [OF e])
qed

lemma drawGeometry_throws_translate:
  "drawGeometry_throws (translate l a b) = drawGeometry_throws l"
  by (simp add: drawGeometry_throws_def translate_def)

lemma animating_cases:
  obtains (idle) "\<not> animating fr f" "animateFeature fr f = (f, [], [])"
      "animatePass fr f = ((f, [], []), None)"
  | (busy) e where "\<not> finished f" "elapsed fr f = Some e" "0 \<le> e"
proof (cases "animating fr f")
  case True
  then show ?thesis
    by (auto simp add: animating_def split: option.splits intro: busy)
next
  case False
  then have "animateFeature fr f = (f, [], [])" "animatePass fr f = ((f, [], []), None)"
    by (auto simp add: animateFeature_def animatePass_def animating_def split: option.splits)
  with False show ?thesis by (rule idle)
qed

lemma animatePass_busy:
  assumes "\<not> finished f" "elapsed fr f = Some e" "0 \<le> e"
  shows "animatePass fr f =
    (case animateFeature fr f of (f', added, drawn) \<Rightarrow>
       if LineString_throws (coordinates (hd drawn)) then ((f', [], []), Some TypeError)
       else if Point_throws (index (getCoordinates (geometry f)) 0) \<or>
               Point_throws (index (getCoordinates (geometry f))
                 (int (length (getCoordinates (geometry f))) - 1))
         then ((f', [], []), Some TypeError)
       else if drawGeometry_throws (hd drawn) then ((f', added, [hd drawn]), Some RangeError)
       else ((f', added, drawn), None))"
  using assms
  by (simp add: animatePass_def animateFeature_def Let_def drawGeometry_throws_translate)
    (simp add: translate_def new_LineString_def)

lemma animateFeature_busy_shape:
  assumes "\<not> finished f" "elapsed fr f = Some e" "0 \<le> e"
  shows "\<exists>f' a b l1 l2. animateFeature fr f = (f', [iconFeature a, iconFeature b], [l1, l2]) \<and>
           (f' = f \<or> f' = f\<lparr>finished := True\<rparr>)"
  using assms by (simp add: animateFeature_def Let_def) blast

lemma animatePass_after: "fst (fst (animatePass fr f)) = fst (animateFeature fr f)"
proof (cases fr f rule: animating_cases)
  case idle
  then show ?thesis by simp
next
  case (busy e)
  show ?thesis
    by (simp add: animatePass_busy [OF busy] split: prod.splits)
qed

lemma animatePass_returns:
  "snd (animatePass fr f) = None \<Longrightarrow> fst (animatePass fr f) = animateFeature fr f"
proof (cases fr f rule: animating_cases)
  case idle
  then show ?thesis by simp
next
  case (busy e)
  assume r: "snd (animatePass fr f) = None"
  from animateFeature_busy_shape [OF busy] obtain f' a b l1 l2
    where "animateFeature fr f = (f', [iconFeature a, iconFeature b], [l1, l2])" by blast
  with r show ?thesis
    by (simp add: animatePass_busy [OF busy] split: if_splits)
qed

lemma animatePass_inert:
  "finished f \<or> start f = None \<Longrightarrow> animatePass fr f = ((f, [], []), None)"
  by (auto simp add: animatePass_def elapsed_def)

lemma after_cases:
  "fst (fst (animatePass fr f)) = f \<or> fst (fst (animatePass fr f)) = f\<lparr>finished := True\<rparr>"
proof (cases fr f rule: animating_cases)
  case idle
  then show ?thesis by simp
next
  case (busy e)
  from animateFeature_busy_shape [OF busy] show ?thesis
    by (auto simp add: animatePass_after)
qed

lemma added_icons:
  "m \<in> set (fst (snd (fst (animatePass fr f)))) \<Longrightarrow> \<exists>c. m = iconFeature c"
proof (cases fr f rule: animating_cases)
  case idle
  assume "m \<in> set (fst (snd (fst (animatePass fr f))))"
  with idle show ?thesis by simp
next
  case (busy e)
  assume m: "m \<in> set (fst (snd (fst (animatePass fr f))))"
  from animateFeature_busy_shape [OF busy] obtain f' a b l1 l2
    where "animateFeature fr f = (f', [iconFeature a, iconFeature b], [l1, l2])" by blast
  with m show ?thesis
    by (auto simp add: animatePass_busy [OF busy] split: if_splits)
qed

lemma added_two:
  "length (fst (snd (fst (animatePass fr f)))) = (if marked fr f then 2 else 0)"
proof (cases fr f rule: animating_cases)
  case idle
  then show ?thesis by (simp add: marked_def)
next
  case (busy e)
  from animateFeature_busy_shape [OF busy] obtain f' a b l1 l2
    where "animateFeature fr f = (f', [iconFeature a, iconFeature b], [l1, l2])" by blast
  then show ?thesis
    by (simp add: marked_def animatePass_busy [OF busy])
qed

lemma isXY_Arr: "isXY c \<Longrightarrow> \<exists>x y. c = Arr [Num x, Num y]"
  by (induction c rule: isXY.induct) simp_all

lemma path_coords:
  assumes "isPath f"
  shows "\<exists>c cs. getCoordinates (geometry f) = c # cs \<and> list_all isXY (c # cs)"
  using assms by (cases "geometry f"; cases "getCoordinates (geometry f)") (auto simp add: isPath_def)

lemma animatePass_path:
  assumes "isPath f"
  shows "animatePass fr f = (animateFeature fr f, None)"
proof (cases fr f rule: animating_cases)
  case idle
  then show ?thesis by simp
next
  case (busy e)
  from path_coords [OF assms] obtain c cs
    where cs: "getCoordinates (geometry f) = c # cs" and xy: "list_all isXY (c # cs)" by blast
  from xy have "isXY c" by simp
  then obtain x y where c: "c = Arr [Num x, Num y]" using isXY_Arr by blast
  have "isXY (last (c # cs))" using xy by (metis last_in_set list.distinct(1) list_all_iff)
  then obtain u v where l: "last (c # cs) = Arr [Num u, Num v]" using isXY_Arr by blast
  have i0: "index (c # cs) 0 = c" by (simp add: index_def)
  have i1: "index (c # cs) (int (length (c # cs)) - 1) = last (c # cs)"
    by (simp add: index_def last_conv_nth)
  have p: "\<not> Point_throws (index (c # cs) 0)"
      "\<not> Point_throws (index (c # cs) (int (length (c # cs)) - 1))"
    unfolding i0 i1 l by (simp_all add: Point_throws_def c)
  have tk: "\<And>n. take n (c # cs) = [] \<or> hd (take n (c # cs)) = c"
    by (simp add: take_Cons') 
  have sl: "\<And>e. \<exists>n. slice0 (c # cs) e = take n (c # cs)"
    by (simp add: slice0_def Let_def) blast
  have a: "\<And>e. \<not> LineString_throws (slice0 (c # cs) e)"
  proof -
    fix e obtain n where "slice0 (c # cs) e = take n (c # cs)" using sl by blast
    with tk [of n] show "\<not> LineString_throws (slice0 (c # cs) e)"
      by (auto simp add: LineString_throws_def c split: list.splits)
  qed
  have b: "\<And>e. \<not> drawGeometry_throws (new_LineString (slice0 (c # cs) e))"
  proof -
    fix e obtain n where "slice0 (c # cs) e = take n (c # cs)" using sl by blast
    with tk [of n] show "\<not> drawGeometry_throws (new_LineString (slice0 (c # cs) e))"
      by (auto simp add: drawGeometry_throws_def new_LineString_def c split: list.splits)
  qed
  show ?thesis
    using busy p a b
    by (simp add: animatePass_def animateFeature_def Let_def cs drawGeometry_throws_translate
        del: index_def)
qed

lemma animateLoop_throw:
  "snd (animatePass fr f) = Some e \<Longrightarrow>
   animateLoop fr (f # fs) =
     (fst (fst (animatePass fr f)) # fs, fst (snd (fst (animatePass fr f))),
      snd (snd (fst (animatePass fr f))), Some e)"
  by (cases "animatePass fr f") (auto split: prod.splits)

lemma animateLoop_return:
  "snd (animatePass fr f) = None \<Longrightarrow>
   animateLoop fr (f # fs) =
     (fst (fst (animatePass fr f)) # fst (animateLoop fr fs),
      fst (snd (fst (animatePass fr f))) @ fst (snd (animateLoop fr fs)),
      snd (snd (fst (animatePass fr f))) @ fst (snd (snd (animateLoop fr fs))),
      snd (snd (snd (animateLoop fr fs))))"
  by (cases "animatePass fr f") (auto split: prod.splits)

lemma loop_length: "length (fst (animateLoop fr fs)) = length fs"
proof (induction fs)
  case Nil
  then show ?case by simp
next
  case (Cons f fs)
  then show ?case
    by (cases "snd (animatePass fr f)")
      (simp_all add: animateLoop_throw animateLoop_return del: animateLoop.simps)
qed

lemma loop_nth:
  "i < length fs \<Longrightarrow>
   fst (animateLoop fr fs) ! i = fs ! i \<or>
   fst (animateLoop fr fs) ! i = fst (fst (animatePass fr (fs ! i)))"
proof (induction fs arbitrary: i)
  case Nil
  then show ?case by simp
next
  case (Cons f fs)
  show ?case
  proof (cases "snd (animatePass fr f)")
    case None
    with Cons show ?thesis
      by (cases i) (simp_all add: animateLoop_return del: animateLoop.simps)
  next
    case (Some e)
    then show ?thesis
      by (cases i) (simp_all add: animateLoop_throw del: animateLoop.simps)
  qed
qed

lemma loop_added:
  "m \<in> set (fst (snd (animateLoop fr fs))) \<Longrightarrow>
   \<exists>f \<in> set fs. m \<in> set (fst (snd (fst (animatePass fr f))))"
proof (induction fs)
  case Nil
  then show ?case by simp
next
  case (Cons f fs)
  show ?case
  proof (cases "snd (animatePass fr f)")
    case None
    with Cons show ?thesis
      by (auto simp add: animateLoop_return simp del: animateLoop.simps)
  next
    case (Some e)
    with Cons.prems show ?thesis
      by (simp add: animateLoop_throw del: animateLoop.simps)
  qed
qed

lemma loop_prefix:
  "\<forall>b \<in> set bs. snd (animatePass fr b) = None \<Longrightarrow>
   animateLoop fr (bs @ rest) =
     (map (\<lambda>b. fst (fst (animatePass fr b))) bs @ fst (animateLoop fr rest),
      concat (map (\<lambda>b. fst (snd (fst (animatePass fr b)))) bs) @ fst (snd (animateLoop fr rest)),
      concat (map (\<lambda>b. snd (snd (fst (animatePass fr b)))) bs) @
        fst (snd (snd (animateLoop fr rest))),
      snd (snd (snd (animateLoop fr rest))))"
proof (induction bs)
  case Nil
  then show ?case by simp
next
  case (Cons b bs)
  then show ?case
    by (simp add: animateLoop_return del: animateLoop.simps)
qed

lemma loop_count:
  "length (fst (snd (animateLoop fr fs))) = 2 * length (filter (marked fr) (visited fr fs))"
proof (induction fs)
  case Nil
  then show ?case by simp
next
  case (Cons f fs)
  then show ?case
    by (cases "snd (animatePass fr f)")
      (simp_all add: animateLoop_throw animateLoop_return added_two del: animateLoop.simps)
qed

lemma loop_skip:
  assumes "animatePass fr f = ((f, [], []), None)"
  shows "snd (animateLoop fr (bs @ f # rest)) = snd (animateLoop fr (bs @ rest))"
proof (induction bs)
  case Nil
  from assms show ?case
    by (simp add: animateLoop_return prod_eq_iff del: animateLoop.simps)
next
  case (Cons b bs)
  then show ?case
    by (cases "snd (animatePass fr b)")
      (simp_all add: animateLoop_throw animateLoop_return prod_eq_iff del: animateLoop.simps)
qed

lemma flights_source:
  "fst (animateFlights fr source) = fst (animateLoop fr source) @ fst (snd (animateLoop fr source))"
  by (simp add: animateFlights_def split: prod.splits)

lemma flights_rest: 
  "snd (animateFlights fr source) = snd (snd (animateLoop fr source))"
  by (simp add: animateFlights_def split: prod.splits)

lemma step_keeps:
  assumes "i < length source" "finished (source ! i) \<or> start (source ! i) = None"
  shows "i < length (step e source) \<and> step e source ! i = source ! i"
proof (cases e)
  case (Tick fr)
  have "animatePass fr (source ! i) = ((source ! i, [], []), None)"
    using assms(2) by (rule animatePass_inert)
  with loop_nth [OF assms(1), of fr] have "fst (animateLoop fr source) ! i = source ! i"
    by auto
  then show ?thesis
    using assms(1) Tick by (simp add: flights_source nth_append loop_length)
next
  case (Fire features now)
  then show ?thesis using assms(1) by (simp add: addLater_def nth_append)
qed

lemma run_keeps:
  "i < length source \<Longrightarrow> finished (source ! i) \<or> start (source ! i) = None \<Longrightarrow>
   i < length (run es source) \<and> run es source ! i = source ! i"
proof (induction es arbitrary: source)
  case Nil
  then show ?case by simp
next
  case (Cons e es)
  from step_keeps [OF Cons.prems(1) Cons.prems(2), of e]
  have a: "i < length (step e source)" and b: "step e source ! i = source ! i" by simp_all
  from Cons.prems(2) b
  have c: "finished (step e source ! i) \<or> start (step e source ! i) = None" by simp
  from Cons.IH [OF a c] b show ?case by simp
qed

lemma flights_count:
  "length (fst (animateFlights fr source)) =
     length source + 2 * length (filter (marked fr) (visited fr source))"
  by (simp add: flights_source loop_length loop_count)

lemma flights_kept:
  assumes "i < length source"
  shows "fst (animateFlights fr source) ! i = source ! i \<or>
         fst (animateFlights fr source) ! i = (source ! i)\<lparr>finished := True\<rparr>"
proof -
  have "fst (animateFlights fr source) ! i = fst (animateLoop fr source) ! i"
    using assms by (simp add: flights_source nth_append loop_length)
  with loop_nth [OF assms, of fr] after_cases [of fr "source ! i"] show ?thesis by auto
qed

lemma flights_new:
  "drop (length source) (fst (animateFlights fr source)) = fst (snd (animateLoop fr source))"
  by (simp add: flights_source loop_length)

lemma path_pass:
  assumes "isPath f" "\<not> finished f" "start f = Some s" "s \<le> time fr"
  shows "animatePass fr f =
    (let cs = getCoordinates (geometry f);
         e = (time fr - s) * pointsPerMs;
         p = new_LineString (take (min (nat \<lfloor>e\<rfloor>) (length cs)) cs);
         k = \<lfloor>centerX fr / worldWidth fr\<rfloor>
     in ((if of_nat (length cs) \<le> e then f\<lparr>finished := True\<rparr> else f,
          [iconFeature (hd cs), iconFeature (last cs)],
          [translate p (of_int k * worldWidth fr) 0,
           translate p (of_int (k + 1) * worldWidth fr) 0]), None))"
proof -
  from path_coords [OF assms(1)] obtain c cs
    where cs: "getCoordinates (geometry f) = c # cs" by blast
  have i0: "index (c # cs) 0 = c" by (simp add: index_def)
  have i1: "index (c # cs) (int (length (c # cs)) - 1) = last (c # cs)"
    by (simp add: index_def last_conv_nth)
  have t: "\<And>p a. translate (translate p a 0) (worldWidth fr) 0 = translate p (a + worldWidth fr) 0"
    by (simp add: translate_def)
  show ?thesis
    unfolding animatePass_path [OF assms(1)] animateFeature_running [OF assms(2-4)] Let_def cs i0 i1 t
    by (simp add: algebra_simps)
qed

lemma finished_after_iff:
  "\<not> finished f \<Longrightarrow>
   finished (fst (animateFeature fr f)) =
     (\<exists>s. start f = Some s \<and> s \<le> time fr \<and>
          of_nat (length (getCoordinates (geometry f))) \<le> (time fr - s) * pointsPerMs)"
  by (auto simp add: animateFeature_def elapsed_def Let_def split: option.splits)

section \<open>Facts about addLater\<close>



section \<open>The claims\<close>

text \<open>
  C1, as stated: a path of 101 points is reported finished exactly from 5000 ms of
  elapsed time on. The flag is set when \<open>elapsed * 0.02\<close> reaches the number of
  points, 101, so at 5000 ms (100 points) the path is not finished yet.
\<close>

theorem finished_at_5000_counterexample:
  "length (getCoordinates (geometry ((lineFeature (replicate 101 (xy (0, 0))))\<lparr>start := Some 0\<rparr>))) = 101 \<and>
   \<not> finished (fst (animateFeature \<lparr>time = 5000, centerX = 0, worldWidth = 1\<rparr>
      ((lineFeature (replicate 101 (xy (0, 0))))\<lparr>start := Some 0\<rparr>)))"
  by (simp add: animateFeature_def elapsed_def lineFeature_def pointsPerMs_def Let_def)

text \<open>
  C1, amended: an unfinished path of 101 points that started at \<open>s\<close> is marked
  finished by a frame exactly when the frame's time is at least \<open>s + 5050\<close>; at an
  elapsed time of 4999 ms it is not.
\<close>

theorem finished_101_points:
  assumes "length (getCoordinates (geometry f)) = 101" "\<not> finished f" "start f = Some s"
  shows "finished (fst (animateFeature fr f)) = (5050 \<le> time fr - s) \<and>
         (time fr - s = 4999 \<longrightarrow> \<not> finished (fst (animateFeature fr f)))"
proof -
  have "finished (fst (animateFeature fr f)) = (5050 \<le> time fr - s)"
  proof (cases "s \<le> time fr")
    case True
    show ?thesis
      using assms by (simp add: animateFeature_running [OF assms(2) assms(3) True] Let_def
          pointsPerMs_def)
  next
    case False
    then have "time fr < s" by simp
    from animateFeature_early [OF assms(3) this] assms(2) False show ?thesis by simp
  qed
  then show ?thesis by simp
qed

theorem finished_101_points_witness:
  "finished (fst (animateFeature \<lparr>time = 5050, centerX = 0, worldWidth = 1\<rparr>
      ((lineFeature (replicate 101 (xy (0, 0))))\<lparr>start := Some 0\<rparr>)))"
  using finished_101_points [of "(lineFeature (replicate 101 (xy (0, 0))))\<lparr>start := Some 0\<rparr>" 0
      "\<lparr>time = 5050, centerX = 0, worldWidth = 1\<rparr>"]
  by (simp add: lineFeature_def)




text \<open>
  C3, as stated: the markers of a frame are not kept, and the stored features are the
  same after the frame as before. The loop hands both markers to \<open>addFeatures\<close>: a
  source holding one running path holds three features after one frame.
\<close>

theorem markers_stored_counterexample:
  "fst (animateFlights \<lparr>time = 100, centerX = 0, worldWidth = 1\<rparr>
      [(lineFeature [xy (1, 2), xy (3, 4), xy (5, 6)])\<lparr>start := Some 0\<rparr>]) =
   [(lineFeature [xy (1, 2), xy (3, 4), xy (5, 6)])\<lparr>start := Some 0\<rparr>,
    iconFeature (xy (1, 2)), iconFeature (xy (5, 6))]"
  by (simp add: animateFlights_def animatePass_def elapsed_def lineFeature_def Let_def
      pointsPerMs_def index_def LineString_throws_def Point_throws_def drawGeometry_throws_def
      slice0_def toInteger_def new_LineString_def translate_def xy_def)

text \<open>
  C3, amended: the markers are stored. After a frame every feature that was stored
  before is still stored, unchanged but for a \<open>finished\<close> flag that the frame has set;
  every new feature is a marker of the loop (a point, not finished, no start); there
  are two new features for every pass of the frame that reached \<open>addFeatures\<close>; and a
  running path that the loop reaches has such a pass, which stores the markers of its
  first and last coordinate.
\<close>

theorem markers_stored:
  "(\<forall>i < length source.
      fst (animateFlights fr source) ! i = source ! i \<or>
      fst (animateFlights fr source) ! i = (source ! i)\<lparr>finished := True\<rparr>) \<and>
   (\<forall>m \<in> set (drop (length source) (fst (animateFlights fr source))). \<exists>c. m = iconFeature c) \<and>
   length (fst (animateFlights fr source)) =
     length source + 2 * length (filter (marked fr) (visited fr source)) \<and>
   (isPath f \<and> animating fr f \<and> (\<forall>b \<in> set before. snd (animatePass fr b) = None) \<longrightarrow>
      marked fr f \<and> f \<in> set (visited fr (before @ f # rest)) \<and>
      {iconFeature (hd (getCoordinates (geometry f))),
       iconFeature (last (getCoordinates (geometry f)))}
        \<subseteq> set (drop (length (before @ f # rest)) (fst (animateFlights fr (before @ f # rest)))))"
proof (intro conjI allI impI ballI)
  fix i assume "i < length source"
  then show "fst (animateFlights fr source) ! i = source ! i \<or>
      fst (animateFlights fr source) ! i = (source ! i)\<lparr>finished := True\<rparr>"
    by (rule flights_kept)
next
  fix m assume "m \<in> set (drop (length source) (fst (animateFlights fr source)))"
  then have "m \<in> set (fst (snd (animateLoop fr source)))" by (simp only: flights_new)
  from loop_added [OF this] added_icons show "\<exists>c. m = iconFeature c" by blast
next
  show "length (fst (animateFlights fr source)) =
     length source + 2 * length (filter (marked fr) (visited fr source))"
    by (rule flights_count)
next
  assume a: "isPath f \<and> animating fr f \<and> (\<forall>b \<in> set before. snd (animatePass fr b) = None)"
  then obtain s where s: "\<not> finished f" "start f = Some s" "s \<le> time fr"
    by (auto simp add: animating_def elapsed_def split: option.splits)
  from a have p: "isPath f" by simp
  note pp = path_pass [OF p s]
  show "marked fr f" by (simp add: marked_def pp Let_def)
  from a have v: "visited fr (before @ f # rest) = before @ visited fr (f # rest)"
    by (induction before) simp_all
  show "f \<in> set (visited fr (before @ f # rest))" by (simp add: v)
  from a have b: "\<forall>b \<in> set before. snd (animatePass fr b) = None" by simp
  have r: "snd (animatePass fr f) = None" by (simp add: pp Let_def)
  show "{iconFeature (hd (getCoordinates (geometry f))),
       iconFeature (last (getCoordinates (geometry f)))}
        \<subseteq> set (drop (length (before @ f # rest)) (fst (animateFlights fr (before @ f # rest))))"
    unfolding flights_new
    by (simp add: loop_prefix [OF b] animateLoop_return [OF r] pp Let_def del: animateLoop.simps)
qed

theorem markers_stored_witness:
  "length (fst (animateFlights \<lparr>time = 50, centerX = 0, worldWidth = 1\<rparr>
      (addLater (flightFeatures [[(1, 2), (3, 4), (5, 6)]]) 0 []))) = 5 \<and>
   marked \<lparr>time = 100, centerX = 0, worldWidth = 1\<rparr>
      ((lineFeature (map xy [(1, 2), (3, 4), (5, 6)]))\<lparr>start := Some 0\<rparr>)"
proof -
  have v: "visited \<lparr>time = 50, centerX = 0, worldWidth = 1\<rparr>
      (addLater (flightFeatures [[(1, 2), (3, 4), (5, 6)]]) 0 []) =
      [(startIcon (map xy [(1, 2), (3, 4), (5, 6)]))\<lparr>start := Some 0\<rparr>]"
    by (simp add: addLater_def flightFeatures_def startIcon_def animatePass_def elapsed_def Let_def
      pointsPerMs_def index_def LineString_throws_def Point_throws_def drawGeometry_throws_def
      slice0_def toInteger_def new_LineString_def translate_def xy_def getFirstCoordinate_def)
  have m: "marked \<lparr>time = 50, centerX = 0, worldWidth = 1\<rparr>
      ((startIcon (map xy [(1, 2), (3, 4), (5, 6)]))\<lparr>start := Some 0\<rparr>)"
    by (simp add: marked_def startIcon_def animatePass_def elapsed_def Let_def
      pointsPerMs_def index_def LineString_throws_def Point_throws_def drawGeometry_throws_def
      slice0_def toInteger_def new_LineString_def translate_def xy_def getFirstCoordinate_def)
  have l: "length (addLater (flightFeatures [[(1, 2), (3, 4), (5, 6)]]) 0 []) = 3"
    by (simp add: addLater_def flightFeatures_def Let_def)
  have p: "isPath ((lineFeature (map xy [(1, 2), (3, 4), (5, 6)]))\<lparr>start := Some 0\<rparr>)"
    by (simp add: isPath_def lineFeature_def xy_def)
  have a: "animating \<lparr>time = 100, centerX = 0, worldWidth = 1\<rparr>
      ((lineFeature (map xy [(1, 2), (3, 4), (5, 6)]))\<lparr>start := Some 0\<rparr>)"
    by (simp add: animating_def elapsed_def lineFeature_def)
  have b: "\<forall>b \<in> set ([] :: feature list).
      snd (animatePass \<lparr>time = 100, centerX = 0, worldWidth = 1\<rparr> b) = None" by simp
  from markers_stored [where fr = "\<lparr>time = 50, centerX = 0, worldWidth = 1\<rparr>"
        and source = "addLater (flightFeatures [[(1, 2), (3, 4), (5, 6)]]) 0 []"]
  have "length (fst (animateFlights \<lparr>time = 50, centerX = 0, worldWidth = 1\<rparr>
      (addLater (flightFeatures [[(1, 2), (3, 4), (5, 6)]]) 0 []))) =
     length (addLater (flightFeatures [[(1, 2), (3, 4), (5, 6)]]) 0 []) +
     2 * length (filter (marked \<lparr>time = 50, centerX = 0, worldWidth = 1\<rparr>)
       (visited \<lparr>time = 50, centerX = 0, worldWidth = 1\<rparr>
         (addLater (flightFeatures [[(1, 2), (3, 4), (5, 6)]]) 0 [])))"
    by blast
  then have one: "length (fst (animateFlights \<lparr>time = 50, centerX = 0, worldWidth = 1\<rparr>
      (addLater (flightFeatures [[(1, 2), (3, 4), (5, 6)]]) 0 []))) = 5"
    unfolding v l using m by simp
  from markers_stored [where fr = "\<lparr>time = 100, centerX = 0, worldWidth = 1\<rparr>"
        and f = "(lineFeature (map xy [(1, 2), (3, 4), (5, 6)]))\<lparr>start := Some 0\<rparr>"
        and before = "[]"] p a b
  have two: "marked \<lparr>time = 100, centerX = 0, worldWidth = 1\<rparr>
      ((lineFeature (map xy [(1, 2), (3, 4), (5, 6)]))\<lparr>start := Some 0\<rparr>)"
    by blast
  from one two show ?thesis by (rule conjI)
qed



text \<open>
  C5: the pass of an unfinished path at or after its start makes exactly two draw
  calls and returns: both of the visible prefix, one translated by \<open>k * worldWidth\<close>
  and one by \<open>(k + 1) * worldWidth\<close>, with \<open>k = floor(centerX / worldWidth)\<close>. In a
  frame whose loop reaches the path, these two are its draw calls, between those of the
  features before it and those of the features after it.
\<close>

theorem two_draw_calls:
  assumes "isPath f" "\<not> finished f" "start f = Some s" "s \<le> time fr" "0 < worldWidth fr"
  shows "(let cs = getCoordinates (geometry f);
              prefix = new_LineString (take (min (nat \<lfloor>(time fr - s) * pointsPerMs\<rfloor>) (length cs)) cs);
              k = \<lfloor>centerX fr / worldWidth fr\<rfloor>;
              calls = [translate prefix (of_int k * worldWidth fr) 0,
                       translate prefix (of_int (k + 1) * worldWidth fr) 0]
          in snd (snd (fst (animatePass fr f))) = calls \<and>
             snd (animatePass fr f) = None \<and>
             ((\<forall>b \<in> set before. snd (animatePass fr b) = None) \<longrightarrow>
                fst (snd (animateFlights fr (before @ f # rest))) =
                  concat (map (\<lambda>b. snd (snd (fst (animatePass fr b)))) before) @ calls @
                  fst (snd (animateFlights fr rest))))"
proof -
  note pp = path_pass [OF assms(1-4)]
  have r: "snd (animatePass fr f) = None" by (simp add: pp Let_def)
  have d: "\<And>src. fst (snd (animateFlights fr src)) = fst (snd (snd (animateLoop fr src)))"
    by (simp add: flights_rest)
  have "\<forall>b \<in> set before. snd (animatePass fr b) = None \<Longrightarrow>
        fst (snd (animateFlights fr (before @ f # rest))) =
          concat (map (\<lambda>b. snd (snd (fst (animatePass fr b)))) before) @
          snd (snd (fst (animatePass fr f))) @ fst (snd (animateFlights fr rest))"
    by (simp add: d loop_prefix animateLoop_return [OF r] del: animateLoop.simps)
  then show ?thesis
    by (simp add: Let_def r) (simp add: pp Let_def)
qed

theorem two_draw_calls_witness:
  "fst (snd (animateFlights \<lparr>time = 100, centerX = -5, worldWidth = 2\<rparr>
      [(lineFeature [xy (1, 2), xy (3, 4), xy (5, 6)])\<lparr>start := Some 0\<rparr>])) =
   [\<lparr>coordinates = [xy (1, 2), xy (3, 4)], dx = -6, dy = 0\<rparr>,
    \<lparr>coordinates = [xy (1, 2), xy (3, 4)], dx = -4, dy = 0\<rparr>]"
proof -
  have k: "\<lfloor>- (5 / 2 :: rat)\<rfloor> = - 3"
    by (rule floor_unique) simp_all
  have p: "isPath ((lineFeature [xy (1, 2), xy (3, 4), xy (5, 6)])\<lparr>start := Some 0\<rparr>)"
    by (simp add: isPath_def lineFeature_def xy_def)
  from two_draw_calls [OF p, of 0 "\<lparr>time = 100, centerX = -5, worldWidth = 2\<rparr>" "[]" "[]"]
  show ?thesis
    by (simp add: lineFeature_def pointsPerMs_def Let_def translate_def new_LineString_def k
        animateFlights_def)
qed

text \<open>
  C6: a path whose \<open>finished\<close> flag is true gets no draw call: the loop body draws
  nothing for it, and the draw calls of a frame (and how the frame ends) are the same
  with it in the source as without it.
\<close>

theorem finished_not_drawn:
  assumes "finished f"
  shows "snd (snd (animateFeature fr f)) = [] \<and>
         snd (animateFlights fr (before @ f # after)) = snd (animateFlights fr (before @ after))"
proof -
  from assms have "animatePass fr f = ((f, [], []), None)" by (simp add: animatePass_inert)
  from loop_skip [OF this, of before after] show ?thesis
    by (simp add: flights_rest animateFeature_finished [OF assms])
qed

theorem finished_not_drawn_witness:
  "snd (animateFlights \<lparr>time = 100, centerX = 0, worldWidth = 1\<rparr>
     [(lineFeature [xy (1, 2), xy (3, 4)])\<lparr>start := Some 0, finished := True\<rparr>]) = ([], None)"
  using finished_not_drawn [of "(lineFeature [xy (1, 2), xy (3, 4)])\<lparr>start := Some 0, finished := True\<rparr>"
      "\<lparr>time = 100, centerX = 0, worldWidth = 1\<rparr>" "[]" "[]"]
  by (simp add: lineFeature_def animateFlights_def)

text \<open>
  C7: the flag is a latch. For a path with a fixed start, a frame time at which the
  loop sets the flag is followed only by times at which it sets it too; the loop body
  never clears a flag that is set; and a stored path that is finished is finished after
  every sequence of frames and timers.
\<close>

theorem finished_latch:
  "(\<not> finished f \<and> time fr \<le> time fr' \<and> finished (fst (animateFeature fr f)) \<longrightarrow>
      finished (fst (animateFeature fr' f))) \<and>
   (finished f \<longrightarrow> finished (fst (animateFeature fr f))) \<and>
   (i < length source \<and> finished (source ! i) \<longrightarrow>
      i < length (run es source) \<and> finished (run es source ! i))"
proof (intro conjI impI)
  assume a: "\<not> finished f \<and> time fr \<le> time fr' \<and> finished (fst (animateFeature fr f))"
  then obtain s where s: "start f = Some s" "s \<le> time fr"
    and n: "of_nat (length (getCoordinates (geometry f))) \<le> (time fr - s) * pointsPerMs"
    by (auto simp add: finished_after_iff)
  have "(time fr - s) * pointsPerMs \<le> (time fr' - s) * pointsPerMs"
    using a by (simp add: pointsPerMs_def)
  with n have "of_nat (length (getCoordinates (geometry f))) \<le> (time fr' - s) * pointsPerMs"
    by (rule order_trans)
  moreover have "s \<le> time fr'" using s(2) a by simp
  ultimately show "finished (fst (animateFeature fr' f))"
    using a s(1) by (simp add: finished_after_iff)
next
  assume "finished f"
  then show "finished (fst (animateFeature fr f))" by (simp add: animateFeature_finished)
next
  assume a: "i < length source \<and> finished (source ! i)"
  then have "i < length (run es source) \<and> run es source ! i = source ! i"
    by (intro run_keeps) simp_all
  with a show "i < length (run es source)" and "finished (run es source ! i)" by simp_all
qed

theorem finished_latch_witness:
  "finished (fst (animateFeature \<lparr>time = 200, centerX = 0, worldWidth = 1\<rparr>
      ((lineFeature [xy (1, 2), xy (3, 4)])\<lparr>start := Some 0\<rparr>))) \<and>
   finished (run [Tick \<lparr>time = 100, centerX = 0, worldWidth = 1\<rparr>,
                  Fire [lineFeature [xy (1, 2)]] 120,
                  Tick \<lparr>time = 130, centerX = 0, worldWidth = 1\<rparr>]
       [(lineFeature [xy (1, 2), xy (3, 4)])\<lparr>start := Some 0, finished := True\<rparr>] ! 0)"
proof -
  have h: "finished (fst (animateFeature \<lparr>time = 100, centerX = 0, worldWidth = 1\<rparr>
      ((lineFeature [xy (1, 2), xy (3, 4)])\<lparr>start := Some 0\<rparr>)))"
    by (simp add: animateFeature_def elapsed_def lineFeature_def pointsPerMs_def Let_def)
  show ?thesis
    using h finished_latch [where f = "(lineFeature [xy (1, 2), xy (3, 4)])\<lparr>start := Some 0\<rparr>"
        and fr = "\<lparr>time = 100, centerX = 0, worldWidth = 1\<rparr>"
        and fr' = "\<lparr>time = 200, centerX = 0, worldWidth = 1\<rparr>" and i = 0
        and source = "[(lineFeature [xy (1, 2), xy (3, 4)])\<lparr>start := Some 0, finished := True\<rparr>]"
        and es = "[Tick \<lparr>time = 100, centerX = 0, worldWidth = 1\<rparr>,
                  Fire [lineFeature [xy (1, 2)]] 120,
                  Tick \<lparr>time = 130, centerX = 0, worldWidth = 1\<rparr>]"]
    by (simp add: lineFeature_def)
qed




text \<open>
  C9, as stated: a path without coordinates is marked finished, the frame does not
  crash, and nothing is drawn for it. The flag is set and nothing is drawn, but
  \<open>coords[0]\<close> is \<open>undefined\<close> and \<open>new Point\<close> throws on it: the frame ends there,
  and the path behind it gets no pass.
\<close>

theorem empty_path_counterexample:
  "animateFlights \<lparr>time = 0, centerX = 0, worldWidth = 1\<rparr>
     [(lineFeature [])\<lparr>start := Some 0\<rparr>, (lineFeature [xy (1, 2), xy (3, 4)])\<lparr>start := Some 0\<rparr>] =
   ([(lineFeature [])\<lparr>start := Some 0, finished := True\<rparr>,
     (lineFeature [xy (1, 2), xy (3, 4)])\<lparr>start := Some 0\<rparr>], [], Some TypeError)"
  by (simp add: animateFlights_def animatePass_def elapsed_def lineFeature_def Let_def
      pointsPerMs_def index_def slice0_def toInteger_def LineString_throws_def Point_throws_def)

text \<open>
  C9, amended: on its first frame at or after its start, the pass of a path without
  coordinates sets the flag, adds no marker, makes no draw call and ends in a
  TypeError. That ends the frame: the features after it are left as they were. In
  every later frame the path is finished, and its pass does nothing and returns.
\<close>

theorem empty_path:
  assumes "getCoordinates (geometry f) = []" "\<not> finished f" "start f = Some s" "s \<le> time fr"
  shows "animatePass fr f = ((f\<lparr>finished := True\<rparr>, [], []), Some TypeError) \<and>
         animatePass fr' (f\<lparr>finished := True\<rparr>) = ((f\<lparr>finished := True\<rparr>, [], []), None) \<and>
         ((\<forall>b \<in> set before. snd (animatePass fr b) = None) \<longrightarrow>
            animateFlights fr (before @ f # rest) =
              (map (\<lambda>b. fst (fst (animatePass fr b))) before @ f\<lparr>finished := True\<rparr> # rest @
                 concat (map (\<lambda>b. fst (snd (fst (animatePass fr b)))) before),
               concat (map (\<lambda>b. snd (snd (fst (animatePass fr b)))) before),
               Some TypeError))"
proof -
  have e: "0 \<le> (time fr - s) * pointsPerMs" using assms(4) by (simp add: pointsPerMs_def)
  have a: "animatePass fr f = ((f\<lparr>finished := True\<rparr>, [], []), Some TypeError)"
    using assms e
    by (simp add: animatePass_def elapsed_def Let_def index_def slice0_def
        LineString_throws_def Point_throws_def)
  have b: "animatePass fr' (f\<lparr>finished := True\<rparr>) = ((f\<lparr>finished := True\<rparr>, [], []), None)"
    by (simp add: animatePass_inert)
  have t: "snd (animatePass fr f) = Some TypeError" by (simp add: a)
  have "\<forall>b \<in> set before. snd (animatePass fr b) = None \<Longrightarrow>
        animateFlights fr (before @ f # rest) =
          (map (\<lambda>b. fst (fst (animatePass fr b))) before @ f\<lparr>finished := True\<rparr> # rest @
             concat (map (\<lambda>b. fst (snd (fst (animatePass fr b)))) before),
           concat (map (\<lambda>b. snd (snd (fst (animatePass fr b)))) before),
           Some TypeError)"
    by (simp add: animateFlights_def loop_prefix animateLoop_throw [OF t] a del: animateLoop.simps)
  with a b show ?thesis by blast
qed

theorem empty_path_witness:
  "animatePass \<lparr>time = 7, centerX = 0, worldWidth = 1\<rparr> ((lineFeature [])\<lparr>start := Some 5\<rparr>) =
     (((lineFeature [])\<lparr>start := Some 5, finished := True\<rparr>, [], []), Some TypeError)"
  using empty_path [of "(lineFeature [])\<lparr>start := Some 5\<rparr>" 5
      "\<lparr>time = 7, centerX = 0, worldWidth = 1\<rparr>" _ "[]"]
  by (simp add: lineFeature_def)

text \<open>
  C10: the features that a frame adds have no \<open>start\<close> and are not finished. For a
  feature without \<open>start\<close> the elapsed time is NaN in every frame, so its pass
  returns without drawing or changing it, and it is the same feature after every
  sequence of frames and timers. A frame adds two of them for every pass that reaches
  \<open>addFeatures\<close>, and the pass of a running path does.
\<close>

theorem markers_inert:
  "(\<forall>m \<in> set (drop (length source) (fst (animateFlights fr source))).
      start m = None \<and> \<not> finished m) \<and>
   (start m = None \<longrightarrow>
      elapsed fr' m = None \<and> \<not> animating fr' m \<and> animatePass fr' m = ((m, [], []), None)) \<and>
   (i < length source \<and> start (source ! i) = None \<longrightarrow>
      i < length (run es source) \<and> run es source ! i = source ! i) \<and>
   length (fst (animateFlights fr source)) =
     length source + 2 * length (filter (marked fr) (visited fr source)) \<and>
   (isPath f \<and> animating fr f \<longrightarrow>
      marked fr f \<and> snd (animatePass fr f) = None \<and>
      length (fst (snd (fst (animatePass fr f)))) = 2)"
proof (intro conjI impI ballI)
  fix m assume "m \<in> set (drop (length source) (fst (animateFlights fr source)))"
  then have "m \<in> set (fst (snd (animateLoop fr source)))" by (simp only: flights_new)
  from loop_added [OF this] added_icons obtain c where "m = iconFeature c" by blast
  then show "start m = None" and "\<not> finished m" by (simp_all add: iconFeature_def)
next
  assume "start m = None"
  then show "elapsed fr' m = None" and "\<not> animating fr' m"
    and "animatePass fr' m = ((m, [], []), None)"
    by (simp_all add: elapsed_def animating_def animatePass_inert)
next
  assume a: "i < length source \<and> start (source ! i) = None"
  then have "i < length (run es source) \<and> run es source ! i = source ! i"
    by (intro run_keeps) simp_all
  then show "i < length (run es source)" and "run es source ! i = source ! i" by simp_all
next
  show "length (fst (animateFlights fr source)) =
     length source + 2 * length (filter (marked fr) (visited fr source))"
    by (rule flights_count)
next
  assume a: "isPath f \<and> animating fr f"
  then obtain s where s: "\<not> finished f" "start f = Some s" "s \<le> time fr"
    by (auto simp add: animating_def elapsed_def split: option.splits)
  from a have p: "isPath f" by simp
  note pp = path_pass [OF p s]
  show "marked fr f" and "snd (animatePass fr f) = None"
    and "length (fst (snd (fst (animatePass fr f)))) = 2"
    by (simp_all add: marked_def pp Let_def)
qed

theorem markers_inert_witness:
  "run [Tick \<lparr>time = 100, centerX = 0, worldWidth = 1\<rparr>,
        Tick \<lparr>time = 200, centerX = 0, worldWidth = 1\<rparr>]
     [(lineFeature [xy (1, 2), xy (3, 4)])\<lparr>start := Some 0\<rparr>, iconFeature (xy (1, 2))] ! 1 =
   iconFeature (xy (1, 2))"
  using markers_inert [where m = "iconFeature (xy (1, 2))" and i = 1 and source =
      "[(lineFeature [xy (1, 2), xy (3, 4)])\<lparr>start := Some 0\<rparr>, iconFeature (xy (1, 2))]"
      and es = "[Tick \<lparr>time = 100, centerX = 0, worldWidth = 1\<rparr>,
        Tick \<lparr>time = 200, centerX = 0, worldWidth = 1\<rparr>]"]
  by (simp add: iconFeature_def)

end
